theory Spec2Isabelle
  imports Main "HOL-Library.Word"
begin

section \<open>JavaScript strings\<close>

text \<open>
  A JavaScript string is a sequence of UTF-16 code units. The regular expressions of the
  source carry no \<open>u\<close> flag, so they read the string one code unit at a time.
\<close>

type_synonym jsstring = "16 word list"

definition str :: "string \<Rightarrow> jsstring" where
  "str s = map of_char s"

text \<open>The class \<open>\d\<close>: the ten ASCII digits.\<close>

definition is_digit :: "16 word \<Rightarrow> bool" where
  "is_digit c = (0x30 \<le> c \<and> c \<le> 0x39)"

text \<open>Line terminators: LF, CR, LS, PS. The pattern \<open>.\<close> (no \<open>s\<close> flag) matches anything else.\<close>

definition is_line_terminator :: "16 word \<Rightarrow> bool" where
  "is_line_terminator c = (c = 0x0A \<or> c = 0x0D \<or> c = 0x2028 \<or> c = 0x2029)"

definition is_any :: "16 word \<Rightarrow> bool" where
  "is_any c = (\<not> is_line_terminator c)"

text \<open>The class \<open>\s\<close>: ECMAScript white space and line terminators.\<close>

definition is_space :: "16 word \<Rightarrow> bool" where
  "is_space c =
     (c = 0x09 \<or> c = 0x0B \<or> c = 0x0C \<or> c = 0x20 \<or> c = 0xA0 \<or> c = 0x1680
      \<or> (0x2000 \<le> c \<and> c \<le> 0x200A) \<or> c = 0x202F \<or> c = 0x205F \<or> c = 0x3000
      \<or> c = 0xFEFF \<or> is_line_terminator c)"

section \<open>Regular expressions, in continuation style\<close>

text \<open>
  Each combinator matches one piece of a pattern at the front of the input and hands the
  rest of the input to the continuation \<open>k\<close>, which stands for the rest of the pattern.
  Only the existence of a match is computed, so the order in which a backtracking
  matcher tries the alternatives of \<open>+\<close> does not matter.
\<close>

definition re_class :: "(16 word \<Rightarrow> bool) \<Rightarrow> (jsstring \<Rightarrow> bool) \<Rightarrow> jsstring \<Rightarrow> bool" where
  "re_class P k s = (case s of [] \<Rightarrow> False | c # cs \<Rightarrow> P c \<and> k cs)"

fun re_plus :: "(16 word \<Rightarrow> bool) \<Rightarrow> (jsstring \<Rightarrow> bool) \<Rightarrow> jsstring \<Rightarrow> bool" where
  "re_plus P k [] = False"
| "re_plus P k (c # cs) = (P c \<and> (re_plus P k cs \<or> k cs))"

definition re_end :: "jsstring \<Rightarrow> bool" where
  "re_end s = (s = [])"

definition re_done :: "jsstring \<Rightarrow> bool" where
  "re_done s = True"

text \<open>\<open>/^\d{4}\s+.+\..+$/.test(name)\<close>, the filter of \<open>getAllLeetCodeProblems\<close>.\<close>

definition filename_pattern :: "jsstring \<Rightarrow> bool" where
  "filename_pattern name =
     re_class is_digit (re_class is_digit (re_class is_digit (re_class is_digit
       (re_plus is_space
         (re_plus is_any
           (re_class (\<lambda>c. c = 0x2E)
             (re_plus is_any re_end))))))) name"

text \<open>
  \<open>githubFileName.match(/^(\d{4})\s+/)\<close>: \<open>None\<close> is JavaScript's \<open>null\<close>, \<open>Some g\<close>
  carries capture group 1, the first four code units.
\<close>

definition match_prefix :: "jsstring \<Rightarrow> jsstring option" where
  "match_prefix name =
     (if re_class is_digit (re_class is_digit (re_class is_digit (re_class is_digit
           (re_plus is_space re_done)))) name
      then Some (take 4 name) else None)"

section \<open>Numbers to and from strings\<close>

definition digit_value :: "16 word \<Rightarrow> nat" where
  "digit_value c = unat c - 48"

text \<open>
  \<open>parseInt(s, 10)\<close> on a string that starts with a digit: the value of the longest run
  of digits. \<open>None\<close> is \<open>NaN\<close> (no digit at the front). Leading white space and signs,
  which \<open>parseInt\<close> also accepts, cannot occur in capture group 1.
\<close>

definition parseInt10 :: "jsstring \<Rightarrow> nat option" where
  "parseInt10 s =
     (let ds = takeWhile is_digit s
      in if ds = [] then None else Some (foldl (\<lambda>a c. 10 * a + digit_value c) 0 ds))"

text \<open>\<open>Number.prototype.toString\<close> on a non-negative integer below \<open>10^21\<close>: plain decimal.\<close>

fun number_toString :: "nat \<Rightarrow> jsstring" where
  "number_toString n =
     (if n < 10 then [of_nat (48 + n)]
      else number_toString (n div 10) @ [of_nat (48 + n mod 10)])"

declare number_toString.simps [simp del]

section \<open>GitHubService.convertGithubToLeetCodeSlug\<close>

definition convertGithubToLeetCodeSlug :: "jsstring \<Rightarrow> jsstring" where
  "convertGithubToLeetCodeSlug githubFileName =
     (case match_prefix githubFileName of
        Some g \<Rightarrow> (case parseInt10 g of Some n \<Rightarrow> number_toString n | None \<Rightarrow> str ''NaN'')
      | None \<Rightarrow> [])"

text \<open>
  What the specification calls stripping leading zeros, written on the digit string
  itself: drop the zeros at the front, and keep one \<open>0\<close> when nothing else is left.
\<close>

definition strip_leading_zeros :: "jsstring \<Rightarrow> jsstring" where
  "strip_leading_zeros ds =
     (case dropWhile (\<lambda>c. c = 0x30) ds of [] \<Rightarrow> [0x30] | r # rs \<Rightarrow> r # rs)"

section \<open>Thrown values\<close>

text \<open>An exception or a rejected promise, with its \<open>message\<close>.\<close>

datatype error = Error jsstring | TypeError jsstring

fun message :: "error \<Rightarrow> jsstring" where
  "message (Error m) = m"
| "message (TypeError m) = m"

section \<open>LeetCodeStateManager\<close>

record counter =
  easy :: int
  medium :: int
  hard :: int

text \<open>The payload of a \<open>statsUpdate\<close> message, as \<open>getStats\<close> builds it.\<close>

record stats =
  stats_easy :: int
  stats_medium :: int
  stats_hard :: int
  stats_isCountingComplete :: bool
  stats_lastUpdate :: "nat option"
  stats_loading :: bool

text \<open>
  The fields of \<open>this.state\<close>, and \<open>sent\<close>: the messages handed to
  \<open>chrome.runtime.sendMessage\<close> so far, oldest first. Dates are milliseconds.
\<close>

record LeetCodeStateManager =
  counter :: counter
  isCountingComplete :: bool
  lastUpdate :: "nat option"
  loading :: bool
  sent :: "stats list"

definition constructor :: LeetCodeStateManager where
  "constructor =
     \<lparr>counter = \<lparr>easy = 0, medium = 0, hard = 0\<rparr>, isCountingComplete = False,
      lastUpdate = None, loading = True, sent = []\<rparr>"

definition getStats :: "LeetCodeStateManager \<Rightarrow> stats" where
  "getStats m =
     \<lparr>stats_easy = easy (counter m), stats_medium = medium (counter m),
      stats_hard = hard (counter m), stats_isCountingComplete = isCountingComplete m,
      stats_lastUpdate = lastUpdate m, stats_loading = loading m\<rparr>"

text \<open>A failed delivery is swallowed by the \<open>.catch\<close>, so broadcasting never throws.\<close>

definition broadcastState :: "LeetCodeStateManager \<Rightarrow> LeetCodeStateManager" where
  "broadcastState m = m\<lparr>sent := sent m @ [getStats m]\<rparr>"

definition reset :: "LeetCodeStateManager \<Rightarrow> LeetCodeStateManager" where
  "reset m =
     m\<lparr>counter := \<lparr>easy = 0, medium = 0, hard = 0\<rparr>, isCountingComplete := False,
       lastUpdate := None, loading := True\<rparr>"

text \<open>
  \<open>toLowerCase\<close> on the letters \<open>A\<close> to \<open>Z\<close>. The source's result is only used as
  a property name tested against the counter object, whose keys are ASCII; code units
  outside ASCII are left as they are.
\<close>

definition toLowerCase :: "jsstring \<Rightarrow> jsstring" where
  "toLowerCase s = map (\<lambda>c. if 0x41 \<le> c \<and> c \<le> 0x5A then c + 0x20 else c) s"

text \<open>
  \<open>key in this.state.counter\<close>: the operator \<open>in\<close> also finds the properties that the
  counter object inherits from \<open>Object.prototype\<close>.
\<close>

definition object_prototype_keys :: "jsstring list" where
  "object_prototype_keys =
     map str [''constructor'', ''__defineGetter__'', ''__defineSetter__'', ''hasOwnProperty'',
       ''__lookupGetter__'', ''__lookupSetter__'', ''isPrototypeOf'', ''propertyIsEnumerable'',
       ''toString'', ''valueOf'', ''__proto__'', ''toLocaleString'']"

definition in_counter :: "jsstring \<Rightarrow> bool" where
  "in_counter k =
     (k = str ''easy'' \<or> k = str ''medium'' \<or> k = str ''hard'' \<or> k \<in> set object_prototype_keys)"

text \<open>
  \<open>this.state.counter[key] += 1\<close>. For an inherited key the assignment writes a property
  of that name and leaves the three tiers as they are.
\<close>

definition add_one :: "jsstring \<Rightarrow> counter \<Rightarrow> counter" where
  "add_one k c =
     (if k = str ''easy'' then c\<lparr>easy := easy c + 1\<rparr>
      else if k = str ''medium'' then c\<lparr>medium := medium c + 1\<rparr>
      else if k = str ''hard'' then c\<lparr>hard := hard c + 1\<rparr>
      else c)"

text \<open>
  A difficulty is a string or absent: \<open>None\<close> is \<open>undefined\<close>, and the empty string
  is falsy as well.
\<close>

definition incrementCounter ::
  "jsstring option \<Rightarrow> nat \<Rightarrow> LeetCodeStateManager \<Rightarrow> bool option \<times> LeetCodeStateManager" where
  "incrementCounter difficulty now m =
     (case difficulty of
        None \<Rightarrow> (None, m)
      | Some d \<Rightarrow>
          if d = [] then (None, m)
          else
            let normalizedDifficulty = toLowerCase d
            in if in_counter normalizedDifficulty
               then (Some True,
                     broadcastState
                       (m\<lparr>counter := add_one normalizedDifficulty (counter m),
                          lastUpdate := Some now\<rparr>))
               else (Some False, m))"

text \<open>The body of the \<open>forEach\<close> in \<open>updateStats\<close>.\<close>

definition count_difficulty :: "jsstring option \<Rightarrow> counter \<Rightarrow> counter" where
  "count_difficulty difficulty c =
     (case difficulty of
        None \<Rightarrow> c
      | Some d \<Rightarrow>
          if d = [] then c
          else
            let normalizedDifficulty = toLowerCase d
            in if in_counter normalizedDifficulty then add_one normalizedDifficulty c else c)"

definition updateStats ::
  "jsstring option list \<Rightarrow> nat \<Rightarrow> LeetCodeStateManager \<Rightarrow> LeetCodeStateManager" where
  "updateStats difficulties now m =
     broadcastState
       (m\<lparr>counter := fold count_difficulty difficulties \<lparr>easy = 0, medium = 0, hard = 0\<rparr>,
          lastUpdate := Some now, loading := False, isCountingComplete := True\<rparr>)"

section \<open>GitHubService\<close>

text \<open>An entry of a listing of the contents API: its \<open>type\<close> and its \<open>name\<close>.\<close>

record item =
  item_type :: jsstring
  item_name :: jsstring

text \<open>
  What \<open>await fetch(url)\<close> followed by \<open>await response.json()\<close> can do: the fetch
  rejects; the response is not \<open>ok\<close> (with its status); or the response is \<open>ok\<close> and
  its body is a listing (\<open>Inr\<close>), or reading the body throws or yields a value whose
  use as a listing throws (\<open>Inl\<close>).
\<close>

datatype fetch_outcome =
    FetchRejects error
  | ResponseNotOk nat
  | ResponseOk "error + item list"

record config =
  leetcode_tracker_token :: "jsstring option"
  leetcode_tracker_username :: "jsstring option"
  leetcode_tracker_repo :: "jsstring option"

text \<open>One catalog entry of \<open>fetchAllQuestionsDifficulty\<close>: \<open>questionId\<close> and \<open>difficulty\<close>.\<close>

type_synonym question = "jsstring \<times> jsstring"

text \<open>
  The surroundings of one run: what \<open>chrome.storage.local.get\<close> yields, what each URL
  answers, and what \<open>LeetCodeService.fetchAllQuestionsDifficulty\<close> yields (that service
  is a collaborator; only its outcome enters).
\<close>

record env =
  storage_get :: "error + config"
  fetch :: "jsstring \<Rightarrow> fetch_outcome"
  fetchAllQuestionsDifficulty :: "error + question list"

definition REPOSITORY_URL :: jsstring where
  "REPOSITORY_URL = str ''https://api.github.com/repos/''"

definition trim :: "jsstring \<Rightarrow> jsstring" where
  "trim s = rev (dropWhile is_space (rev (dropWhile is_space s)))"

text \<open>\<open>s.split('/')\<close>.\<close>

fun split_slash :: "jsstring \<Rightarrow> jsstring list" where
  "split_slash [] = [[]]"
| "split_slash (c # cs) =
     (if c = 0x2F then [] # split_slash cs
      else (case split_slash cs of p # ps \<Rightarrow> (c # p) # ps | [] \<Rightarrow> [[c]]))"

record parsed_repo =
  username :: "jsstring option"
  repositoryName :: jsstring

definition parseRepositoryString ::
  "jsstring option \<Rightarrow> jsstring option \<Rightarrow> error + parsed_repo option" where
  "parseRepositoryString repoString fallbackUsername =
     (case repoString of
        None \<Rightarrow> Inr None
      | Some r \<Rightarrow>
          if r = [] then Inr None
          else if 0x2F \<in> set r then
            (case split_slash r of
               u # n # _ \<Rightarrow> Inr (Some \<lparr>username = Some (trim u), repositoryName = trim n\<rparr>)
             | _ \<Rightarrow> Inl (TypeError (str ''Cannot read properties of undefined'')))
          else Inr (Some \<lparr>username = fallbackUsername, repositoryName = trim r\<rparr>))"

text \<open>A value inside a template literal: \<open>undefined\<close> prints as its name.\<close>

definition interpolate :: "jsstring option \<Rightarrow> jsstring" where
  "interpolate v = (case v of None \<Rightarrow> str ''undefined'' | Some s \<Rightarrow> s)"

definition buildBasicGithubUrl :: "env \<Rightarrow> error + jsstring" where
  "buildBasicGithubUrl e =
     (case storage_get e of
        Inl err \<Rightarrow> Inl err
      | Inr result \<Rightarrow>
          (case parseRepositoryString (leetcode_tracker_repo result)
                  (leetcode_tracker_username result) of
             Inl err \<Rightarrow> Inl err
           | Inr None \<Rightarrow> Inl (Error (str ''Invalid repository configuration''))
           | Inr (Some parsedRepo) \<Rightarrow>
               Inr (REPOSITORY_URL @ interpolate (username parsedRepo) @ str ''/''
                    @ repositoryName parsedRepo @ str ''/contents/'')))"

record problem =
  originalName :: jsstring
  questionId :: jsstring
  language :: jsstring

text \<open>The \<open>filter\<close> and \<open>map\<close> over one folder's listing.\<close>

definition problems_of :: "item \<Rightarrow> item list \<Rightarrow> problem list" where
  "problems_of folder folderData =
     map (\<lambda>file. \<lparr>originalName = item_name file,
                   questionId = convertGithubToLeetCodeSlug (item_name file),
                   language = item_name folder\<rparr>)
       (filter (\<lambda>file. item_type file = str ''file'' \<and> filename_pattern (item_name file))
          folderData)"

text \<open>The body of the inner \<open>try\<close>: the problems one folder adds, or what it throws.\<close>

definition scan_folder_try :: "env \<Rightarrow> jsstring \<Rightarrow> item \<Rightarrow> error + problem list" where
  "scan_folder_try e url folder =
     (case fetch e (url @ item_name folder) of
        FetchRejects err \<Rightarrow> Inl err
      | ResponseNotOk _ \<Rightarrow> Inr []
      | ResponseOk (Inl err) \<Rightarrow> Inl err
      | ResponseOk (Inr folderData) \<Rightarrow> Inr (problems_of folder folderData))"

text \<open>The inner \<open>try\<close> with its \<open>catch\<close>, which logs and goes on to the next folder.\<close>

definition scan_folder :: "env \<Rightarrow> jsstring \<Rightarrow> item \<Rightarrow> problem list" where
  "scan_folder e url folder =
     (case scan_folder_try e url folder of Inl err \<Rightarrow> [] | Inr problems \<Rightarrow> problems)"

text \<open>The \<open>for ... of\<close> loop, pushing each folder's problems onto \<open>allProblems\<close>.\<close>

fun scan_folders :: "env \<Rightarrow> jsstring \<Rightarrow> item list \<Rightarrow> problem list \<Rightarrow> problem list" where
  "scan_folders e url [] allProblems = allProblems"
| "scan_folders e url (folder # folders) allProblems =
     scan_folders e url folders (allProblems @ scan_folder e url folder)"

text \<open>The body of the outer \<open>try\<close>.\<close>

definition getAllLeetCodeProblems_try :: "env \<Rightarrow> error + problem list" where
  "getAllLeetCodeProblems_try e =
     (case buildBasicGithubUrl e of
        Inl err \<Rightarrow> Inl err
      | Inr url \<Rightarrow>
          (case fetch e url of
             FetchRejects err \<Rightarrow> Inl err
           | ResponseNotOk _ \<Rightarrow> Inr []
           | ResponseOk (Inl err) \<Rightarrow> Inl err
           | ResponseOk (Inr data) \<Rightarrow>
               (let languageFolders = filter (\<lambda>item. item_type item = str ''dir'') data
                in Inr (scan_folders e url languageFolders []))))"

text \<open>
  \<open>getAllLeetCodeProblems\<close>: \<open>Inl\<close> would be a rejection reaching the caller, \<open>Inr\<close> is
  the array the promise resolves to.
\<close>

definition getAllLeetCodeProblems :: "env \<Rightarrow> error + problem list" where
  "getAllLeetCodeProblems e =
     (case getAllLeetCodeProblems_try e of Inl err \<Rightarrow> Inr [] | Inr allProblems \<Rightarrow> Inr allProblems)"

section \<open>LeetCodeTrackerController\<close>

text \<open>The four status keys that the controller keeps in \<open>chrome.storage.local\<close>.\<close>

record sync_status =
  leetcode_tracker_last_sync_status :: jsstring
  leetcode_tracker_sync_in_progress :: bool
  leetcode_tracker_last_sync_message :: jsstring
  leetcode_tracker_last_sync_date :: "nat option"

record controller =
  stateManager :: LeetCodeStateManager
  storage :: sync_status

text \<open>What \<open>SyncService.startSync\<close> resolves to.\<close>

record sync_result =
  success :: bool
  result_message :: jsstring

definition truthy :: "jsstring option \<Rightarrow> bool" where
  "truthy v = (case v of None \<Rightarrow> False | Some s \<Rightarrow> s \<noteq> [])"

text \<open>\<open>new Map(entries)\<close>: a later entry replaces an earlier one with the same key.\<close>

definition difficultyMap :: "question list \<Rightarrow> jsstring \<Rightarrow> jsstring option" where
  "difficultyMap allQuestions = map_of (rev allQuestions)"

text \<open>Lines 469 to 479 of \<open>initCounter\<close>: the lookup of every problem and the recount.\<close>

definition recount ::
  "problem list \<Rightarrow> question list \<Rightarrow> nat \<Rightarrow> LeetCodeStateManager \<Rightarrow> LeetCodeStateManager" where
  "recount problems allQuestions now m =
     updateStats (map (\<lambda>problem. difficultyMap allQuestions (questionId problem)) problems) now m"

text \<open>
  The body of the \<open>try\<close> in \<open>initCounter\<close>. An exception leaves the block together with
  the state manager as it is at that moment (\<open>Inl\<close>). The argument \<open>call\<close> is the outcome
  of the first element of the array handed to \<open>Promise.all\<close>.
\<close>

definition initCounter_try ::
  "error + problem list \<Rightarrow> env \<Rightarrow> nat \<Rightarrow> LeetCodeStateManager
     \<Rightarrow> error \<times> LeetCodeStateManager + LeetCodeStateManager" where
  "initCounter_try call e now m =
     (case storage_get e of
        Inl err \<Rightarrow> Inl (err, m)
      | Inr result \<Rightarrow>
          if \<not> truthy (leetcode_tracker_token result)
             \<or> \<not> truthy (leetcode_tracker_username result)
             \<or> \<not> truthy (leetcode_tracker_repo result)
          then Inr (broadcastState (m\<lparr>loading := False, isCountingComplete := True\<rparr>))
          else
            (let m1 = reset m
             in case call of
                  Inl err \<Rightarrow> Inl (err, m1)
                | Inr problems \<Rightarrow>
                    (case fetchAllQuestionsDifficulty e of
                       Inl err \<Rightarrow> Inl (err, m1)
                     | Inr allQuestions \<Rightarrow> Inr (recount problems allQuestions now m1))))"

text \<open>The \<open>try\<close> with its \<open>catch\<close>. \<open>Inl\<close> would be a rejection reaching the caller.\<close>

definition initCounter_with ::
  "error + problem list \<Rightarrow> env \<Rightarrow> nat \<Rightarrow> LeetCodeStateManager \<Rightarrow> error + LeetCodeStateManager" where
  "initCounter_with call e now m =
     (case initCounter_try call e now m of
        Inl (err, m') \<Rightarrow> Inr (broadcastState (m'\<lparr>loading := False, isCountingComplete := True\<rparr>))
      | Inr m' \<Rightarrow> Inr m')"

text \<open>
  \<open>this.getAllLeetCodeProblems()\<close> inside \<open>initCounter\<close>, where \<open>this\<close> is the controller.
  The class \<open>LeetCodeTrackerController\<close> declares \<open>initializeMessageListeners\<close>,
  \<open>saveUserInfos\<close>, \<open>startSync\<close> and \<open>initCounter\<close> and extends nothing;
  \<open>getAllLeetCodeProblems\<close> is a method of \<open>GitHubService\<close>, which the controller holds
  in \<open>this.githubService\<close>. The property is \<open>undefined\<close> on the controller, and calling
  it throws.
\<close>

definition this_getAllLeetCodeProblems :: "env \<Rightarrow> error + problem list" where
  "this_getAllLeetCodeProblems e =
     Inl (TypeError (str ''this.getAllLeetCodeProblems is not a function''))"

definition initCounter :: "env \<Rightarrow> nat \<Rightarrow> LeetCodeStateManager \<Rightarrow> error + LeetCodeStateManager" where
  "initCounter e now m = initCounter_with (this_getAllLeetCodeProblems e) e now m"

text \<open>
  \<open>startSync\<close>. \<open>syncOutcome\<close> is what \<open>await this.syncService.startSync()\<close> does: it
  throws (\<open>Inl\<close>) or yields a result. \<open>now\<close> is the clock when the status is written;
  \<open>later\<close> is the clock of the recount that a successful run starts without awaiting it.
  Writing the four keys to the storage is taken to succeed.
\<close>

definition startSync ::
  "error + sync_result \<Rightarrow> env \<Rightarrow> nat \<Rightarrow> nat \<Rightarrow> controller \<Rightarrow> error + sync_result \<times> controller" where
  "startSync syncOutcome e now later c =
     (case syncOutcome of
        Inr result \<Rightarrow>
          (let c1 = c\<lparr>storage :=
                      \<lparr>leetcode_tracker_last_sync_status =
                         (if success result then str ''success'' else str ''failed''),
                       leetcode_tracker_sync_in_progress = False,
                       leetcode_tracker_last_sync_message = result_message result,
                       leetcode_tracker_last_sync_date = Some now\<rparr>\<rparr>
           in if success result
              then (case initCounter e later (stateManager c1) of
                      Inl err \<Rightarrow> Inr (result, c1)
                    | Inr m \<Rightarrow> Inr (result, c1\<lparr>stateManager := m\<rparr>))
              else Inr (result, c1))
      | Inl err \<Rightarrow>
          Inr (\<lparr>success = False,
                result_message = str ''Error during synchronization: '' @ message err\<rparr>,
               c\<lparr>storage :=
                   \<lparr>leetcode_tracker_last_sync_status = str ''failed'',
                    leetcode_tracker_sync_in_progress = False,
                    leetcode_tracker_last_sync_message = message err,
                    leetcode_tracker_last_sync_date = Some now\<rparr>\<rparr>))"

section \<open>Problem: capturing a submission\<close>

text \<open>\<open>url.match(/\/submissions\/(\d+)/)\<close> tried at the front of \<open>s\<close>.\<close>

definition submissions_at :: "jsstring \<Rightarrow> jsstring option" where
  "submissions_at s =
     (let p = str ''/submissions/''
      in if take (length p) s = p
         then (let ds = takeWhile is_digit (drop (length p) s)
               in if ds = [] then None else Some ds)
         else None)"

text \<open>The match is unanchored: the leftmost position that matches wins.\<close>

fun getSubmissionIdFromURL :: "jsstring \<Rightarrow> jsstring option" where
  "getSubmissionIdFromURL [] = None"
| "getSubmissionIdFromURL (c # cs) =
     (case submissions_at (c # cs) of
        Some submissionId \<Rightarrow> Some submissionId
      | None \<Rightarrow> getSubmissionIdFromURL cs)"

text \<open>
  The loop of \<open>waitForSubmissionURL\<close>. \<open>href k\<close> is \<open>window.location.href\<close> at the
  \<open>k\<close>-th probe. The result carries the identifier (or \<open>None\<close> for \<open>null\<close>), the number
  of probes made and the number of 500 ms waits.
\<close>

function wait_loop :: "(nat \<Rightarrow> jsstring) \<Rightarrow> nat \<Rightarrow> nat \<Rightarrow> jsstring option \<times> nat \<times> nat" where
  "wait_loop href attempt waits =
     (if attempt \<le> 20 then
        (let submissionId = getSubmissionIdFromURL (href attempt)
         in if truthy submissionId then (submissionId, attempt, waits)
            else wait_loop href (attempt + 1) (if attempt < 20 then waits + 1 else waits))
      else (None, attempt - 1, waits))"
  by pat_completeness auto
termination
  by (relation "measure (\<lambda>(href, attempt, waits). 21 - attempt)") auto

declare wait_loop.simps [simp del]

definition waitForSubmissionURL :: "(nat \<Rightarrow> jsstring) \<Rightarrow> jsstring option \<times> nat \<times> nat" where
  "waitForSubmissionURL href = wait_loop href 1 0"










section \<open>Concrete inputs\<close>

text \<open>A page whose address never shows a submission, and one that shows it at once.\<close>

definition problem_page :: "nat \<Rightarrow> jsstring" where
  "problem_page k = str ''https://leetcode.com/problems/two-sum/''"

definition submission_page :: "nat \<Rightarrow> jsstring" where
  "submission_page k = str ''https://leetcode.com/problems/two-sum/submissions/1774457019/''"






text \<open>A fully configured extension, and the entries of the listings used below.\<close>

definition user_config :: config where
  "user_config =
     \<lparr>leetcode_tracker_token = Some (str ''token''),
      leetcode_tracker_username = Some (str ''user''),
      leetcode_tracker_repo = Some (str ''user/leetcode'')\<rparr>"

definition dir_entry :: "string \<Rightarrow> item" where
  "dir_entry name = \<lparr>item_type = str ''dir'', item_name = str name\<rparr>"

definition file_entry :: "string \<Rightarrow> item" where
  "file_entry name = \<lparr>item_type = str ''file'', item_name = str name\<rparr>"

text \<open>
  A repository with the same problem in two language folders, and a catalog that rates
  problem 1 as Easy.
\<close>

definition two_folders_fetch :: "jsstring \<Rightarrow> fetch_outcome" where
  "two_folders_fetch url =
     (if url = str ''https://api.github.com/repos/user/leetcode/contents/''
      then ResponseOk (Inr [dir_entry ''python'', dir_entry ''js''])
      else if url = str ''https://api.github.com/repos/user/leetcode/contents/python''
      then ResponseOk (Inr [file_entry ''0001 two-sum.py''])
      else if url = str ''https://api.github.com/repos/user/leetcode/contents/js''
      then ResponseOk (Inr [file_entry ''0001 two-sum.js''])
      else ResponseNotOk 404)"

definition two_folders_env :: env where
  "two_folders_env =
     \<lparr>storage_get = Inr user_config, fetch = two_folders_fetch,
      fetchAllQuestionsDifficulty = Inr [(str ''1'', str ''Easy'')]\<rparr>"

text \<open>
  A repository with one folder whose request fails and one that lists a matching file, a
  file of another name and a directory with a matching name.
\<close>

definition broken_folder_fetch :: "jsstring \<Rightarrow> fetch_outcome" where
  "broken_folder_fetch url =
     (if url = str ''https://api.github.com/repos/user/leetcode/contents/''
      then ResponseOk (Inr [dir_entry ''broken'', dir_entry ''python'', file_entry ''0003 top-level.py''])
      else if url = str ''https://api.github.com/repos/user/leetcode/contents/python''
      then ResponseOk (Inr [file_entry ''0001 two-sum.py'', file_entry ''notes.txt'', dir_entry ''0002 nested.dir''])
      else FetchRejects (TypeError (str ''Failed to fetch'')))"

definition broken_folder_env :: env where
  "broken_folder_env =
     \<lparr>storage_get = Inr user_config, fetch = broken_folder_fetch,
      fetchAllQuestionsDifficulty = Inr [(str ''1'', str ''Easy'')]\<rparr>"

text \<open>Environments in which the storage, or every request, fails.\<close>

definition storage_fails_env :: env where
  "storage_fails_env =
     \<lparr>storage_get = Inl (Error (str ''storage unavailable'')), fetch = two_folders_fetch,
      fetchAllQuestionsDifficulty = Inr [(str ''1'', str ''Easy'')]\<rparr>"

definition offline_env :: env where
  "offline_env =
     \<lparr>storage_get = Inr user_config,
      fetch = (\<lambda>url. FetchRejects (TypeError (str ''Failed to fetch''))),
      fetchAllQuestionsDifficulty = Inl (Error (str ''Failed to fetch''))\<rparr>"

text \<open>A controller with settled counts, and a sync result that reports failure.\<close>

definition settled :: controller where
  "settled =
     \<lparr>stateManager =
        \<lparr>counter = \<lparr>easy = 3, medium = 2, hard = 1\<rparr>, isCountingComplete = True,
         lastUpdate = Some 1000, loading = False, sent = []\<rparr>,
      storage =
        \<lparr>leetcode_tracker_last_sync_status = str ''success'',
         leetcode_tracker_sync_in_progress = True,
         leetcode_tracker_last_sync_message = [],
         leetcode_tracker_last_sync_date = Some 1000\<rparr>\<rparr>"

definition failed_result :: sync_result where
  "failed_result = \<lparr>success = False, result_message = str ''GitHub API rate limit exceeded''\<rparr>"

section \<open>Digits and code units\<close>

lemma is_digit_unat: "is_digit c = (48 \<le> unat c \<and> unat c \<le> 57)"
  by (simp add: is_digit_def word_le_nat_alt)

lemma is_space_unat:
  "is_space c =
     (unat c \<in> {9, 10, 11, 12, 13, 32, 160, 5760, 8232, 8233, 8239, 8287, 12288, 65279}
      \<or> (8192 \<le> unat c \<and> unat c \<le> 8202))"
  by (simp add: is_space_def is_line_terminator_def word_le_nat_alt word_unat_eq_iff [of c]) blast

lemma digit_not_space: "is_digit c \<Longrightarrow> \<not> is_space c"
  unfolding is_digit_unat is_space_unat by auto

lemma digit_value_lt: "is_digit c \<Longrightarrow> digit_value c < 10"
  unfolding is_digit_unat digit_value_def by arith

lemma digit_value_char:
  assumes "is_digit c"
  shows "of_nat (48 + digit_value c) = c"
proof -
  have "48 + digit_value c = unat c"
    using assms unfolding is_digit_unat digit_value_def by arith
  then have "(of_nat (48 + digit_value c) :: 16 word) = of_nat (unat c)"
    by (simp only:)
  then show ?thesis by simp
qed

lemma digit_value_zero: "is_digit c \<Longrightarrow> (digit_value c = 0) = (c = 0x30)"
  unfolding is_digit_unat digit_value_def word_unat_eq_iff [of c] by auto

lemma digit_of_nat:
  assumes "k < 10"
  shows "is_digit (of_nat (48 + k))"
proof -
  have "unat (of_nat (48 + k) :: 16 word) = (48 + k) mod 2 ^ LENGTH(16)"
    by (rule unat_of_nat)
  also have "\<dots> = 48 + k" using assms by simp
  finally have "unat (of_nat (48 + k) :: 16 word) = 48 + k" .
  then show ?thesis using assms unfolding is_digit_unat by simp
qed

section \<open>Parsing four digits and printing the number\<close>

lemma number_toString_digit: "is_digit c \<Longrightarrow> number_toString (digit_value c) = [c]"
  using digit_value_lt [of c] digit_value_char [of c] by (simp add: number_toString.simps)

lemma number_toString_step:
  assumes "0 < a" "is_digit c"
  shows "number_toString (10 * a + digit_value c) = number_toString a @ [c]"
proof -
  have d: "digit_value c < 10" using assms(2) by (rule digit_value_lt)
  have "\<not> 10 * a + digit_value c < 10" using assms(1) by simp
  moreover have "(10 * a + digit_value c) div 10 = a" using d by simp
  moreover have "(10 * a + digit_value c) mod 10 = digit_value c" using d by simp
  ultimately show ?thesis
    using digit_value_char [OF assms(2)]
    by (subst number_toString.simps) simp
qed

lemma number_toString_foldl:
  "0 < a \<Longrightarrow> \<forall>c \<in> set ds. is_digit c \<Longrightarrow>
   number_toString (foldl (\<lambda>a c. 10 * a + digit_value c) a ds) = number_toString a @ ds"
proof (induction ds arbitrary: a)
  case Nil
  then show ?case by simp
next
  case (Cons c cs)
  have "0 < 10 * a + digit_value c" using Cons.prems(1) by simp
  then show ?case
    using Cons.IH [of "10 * a + digit_value c"] Cons.prems number_toString_step [of a c]
    by simp
qed

lemma number_toString_strip:
  "\<forall>c \<in> set ds. is_digit c \<Longrightarrow> ds \<noteq> [] \<Longrightarrow>
   number_toString (foldl (\<lambda>a c. 10 * a + digit_value c) 0 ds) = strip_leading_zeros ds"
proof (induction ds)
  case Nil
  then show ?case by simp
next
  case (Cons c cs)
  have dc: "is_digit c" using Cons.prems(1) by simp
  show ?case
  proof (cases "c = 0x30")
    case True
    then have z: "digit_value c = 0" by (simp add: digit_value_def)
    show ?thesis
    proof (cases "cs = []")
      case True
      with z \<open>c = 0x30\<close> show ?thesis
        by (simp add: strip_leading_zeros_def number_toString.simps)
    next
      case False
      then show ?thesis
        using Cons.IH Cons.prems(1) z \<open>c = 0x30\<close> by (simp add: strip_leading_zeros_def)
    qed
  next
    case False
    then have "0 < digit_value c" using digit_value_zero [OF dc] by simp
    then show ?thesis
      using number_toString_foldl [of "digit_value c" cs] Cons.prems(1) False
        number_toString_digit [OF dc]
      by (simp add: strip_leading_zeros_def)
  qed
qed

lemma number_toString_digits: "\<forall>c \<in> set (number_toString n). is_digit c"
proof (induction n rule: number_toString.induct)
  case (1 n)
  show ?case
  proof (cases "n < 10")
    case True
    then show ?thesis using digit_of_nat [of n] by (simp add: number_toString.simps)
  next
    case False
    then show ?thesis using "1" digit_of_nat [of "n mod 10"]
      by (subst number_toString.simps) simp
  qed
qed

section \<open>The shape of a matching file name\<close>

lemma re_plus_shape: "re_plus P k s \<Longrightarrow> \<exists>w rest. s = w # rest \<and> P w"
  by (cases s) simp_all

lemma match_prefix_shape:
  "match_prefix name = Some g \<Longrightarrow>
   \<exists>d1 d2 d3 d4 w rest. name = d1 # d2 # d3 # d4 # w # rest \<and> is_digit d1 \<and> is_digit d2
      \<and> is_digit d3 \<and> is_digit d4 \<and> is_space w \<and> g = [d1, d2, d3, d4]"
  by (auto simp: match_prefix_def re_class_def split: list.splits if_splits dest: re_plus_shape)

lemma match_prefix_digits: "\<forall>c \<in> set s. is_digit c \<Longrightarrow> match_prefix s = None"
proof (cases "match_prefix s")
  case None
  then show ?thesis by simp
next
  case (Some g)
  assume a: "\<forall>c \<in> set s. is_digit c"
  from match_prefix_shape [OF Some] obtain d1 d2 d3 d4 w rest where
    "s = d1 # d2 # d3 # d4 # w # rest" "is_space w" by blast
  with a digit_not_space [of w] show ?thesis by simp
qed

lemma filename_pattern_shape:
  "filename_pattern name \<Longrightarrow>
   \<exists>d1 d2 d3 d4 w rest. name = d1 # d2 # d3 # d4 # w # rest \<and> is_digit d1 \<and> is_digit d2
      \<and> is_digit d3 \<and> is_digit d4 \<and> is_space w"
  by (auto simp: filename_pattern_def re_class_def split: list.splits dest: re_plus_shape)

lemma convert_shape:
  assumes "is_digit d1" "is_digit d2" "is_digit d3" "is_digit d4" "is_space w"
  shows "convertGithubToLeetCodeSlug (d1 # d2 # d3 # d4 # w # rest) =
         number_toString (foldl (\<lambda>a c. 10 * a + digit_value c) 0 [d1, d2, d3, d4])"
  using assms
  by (simp add: convertGithubToLeetCodeSlug_def match_prefix_def re_class_def re_done_def
      parseInt10_def)

lemmas slug_eval = str_def filename_pattern_def re_class_def re_end_def re_done_def is_digit_def
  is_space_def is_any_def is_line_terminator_def convertGithubToLeetCodeSlug_def
  match_prefix_def parseInt10_def digit_value_def number_toString.simps

section \<open>C1: the canonical identifier of a file name\<close>

text \<open>
  C1, as the code has it. For every file name that matches \<open>^\d{4}\s+.+\..+$\<close>,
  \<open>convertGithubToLeetCodeSlug\<close> returns the four-digit prefix without its leading
  zeros. The derivation is not idempotent: its result holds digits only, so it does not
  match \<open>^(\d{4})\s+\<close>, and deriving again from the result returns the empty string.
\<close>

theorem convertGithubToLeetCodeSlug_strips_zeros:
  assumes "filename_pattern name"
  shows "convertGithubToLeetCodeSlug name = strip_leading_zeros (take 4 name)
       \<and> convertGithubToLeetCodeSlug (convertGithubToLeetCodeSlug name) = []"
proof -
  from filename_pattern_shape [OF assms] obtain d1 d2 d3 d4 w rest where
    n: "name = d1 # d2 # d3 # d4 # w # rest" and
    d: "is_digit d1" "is_digit d2" "is_digit d3" "is_digit d4" and w: "is_space w"
    by blast
  have c: "convertGithubToLeetCodeSlug name =
      number_toString (foldl (\<lambda>a c. 10 * a + digit_value c) 0 [d1, d2, d3, d4])"
    unfolding n using d w by (rule convert_shape)
  have "number_toString (foldl (\<lambda>a c. 10 * a + digit_value c) 0 [d1, d2, d3, d4])
      = strip_leading_zeros [d1, d2, d3, d4]"
    using d by (intro number_toString_strip) simp_all
  then have one: "convertGithubToLeetCodeSlug name = strip_leading_zeros (take 4 name)"
    using c n by simp
  have "match_prefix (convertGithubToLeetCodeSlug name) = None"
    unfolding c by (rule match_prefix_digits) (rule number_toString_digits)
  then have two: "convertGithubToLeetCodeSlug (convertGithubToLeetCodeSlug name) = []"
    by (simp add: convertGithubToLeetCodeSlug_def [of "convertGithubToLeetCodeSlug name"])
  from one two show ?thesis by simp
qed

theorem convertGithubToLeetCodeSlug_strips_zeros_witness:
  "filename_pattern (str ''0001 two-sum.py'')
   \<and> (convertGithubToLeetCodeSlug (str ''0001 two-sum.py'') = str ''1''
      \<and> convertGithubToLeetCodeSlug (convertGithubToLeetCodeSlug (str ''0001 two-sum.py'')) = [])"
proof -
  have h: "filename_pattern (str ''0001 two-sum.py'')" by (simp add: slug_eval)
  have s: "strip_leading_zeros (take 4 (str ''0001 two-sum.py'')) = str ''1''"
    by (simp add: str_def strip_leading_zeros_def)
  show ?thesis
    using h convertGithubToLeetCodeSlug_strips_zeros [OF h, unfolded s] by (rule conjI)
qed

text \<open>
  C1 as the specification states it asks for the second derivation to return what the
  first one returned. On \<open>0001 two-sum.py\<close> the first returns \<open>1\<close> and the second the
  empty string.
\<close>

theorem convertGithubToLeetCodeSlug_not_idempotent:
  "convertGithubToLeetCodeSlug (convertGithubToLeetCodeSlug (str ''0001 two-sum.py''))
   \<noteq> convertGithubToLeetCodeSlug (str ''0001 two-sum.py'')"
  by (simp add: slug_eval)

section \<open>The location-resolution loop\<close>

lemma submissions_at_nonempty: "submissions_at s = Some sid \<Longrightarrow> sid \<noteq> []"
  by (auto simp: submissions_at_def Let_def split: if_splits)

lemma getSubmissionIdFromURL_nonempty: "getSubmissionIdFromURL s = Some sid \<Longrightarrow> sid \<noteq> []"
  by (induction s) (auto split: option.splits dest: submissions_at_nonempty)

lemma truthy_getSubmissionIdFromURL:
  "truthy (getSubmissionIdFromURL s) = (getSubmissionIdFromURL s \<noteq> None)"
  by (cases "getSubmissionIdFromURL s") (auto simp: truthy_def dest: getSubmissionIdFromURL_nonempty)

lemma wait_loop_found:
  "attempt \<le> 20 \<Longrightarrow> getSubmissionIdFromURL (href attempt) = Some sid \<Longrightarrow>
   wait_loop href attempt waits = (Some sid, attempt, waits)"
  using truthy_getSubmissionIdFromURL [of "href attempt"]
  by (subst wait_loop.simps) simp

lemma wait_loop_next:
  "attempt < 20 \<Longrightarrow> getSubmissionIdFromURL (href attempt) = None \<Longrightarrow>
   wait_loop href attempt waits = wait_loop href (attempt + 1) (waits + 1)"
  by (subst wait_loop.simps) (simp add: truthy_def)

lemma wait_loop_last:
  "getSubmissionIdFromURL (href 20) = None \<Longrightarrow> wait_loop href 20 waits = (None, 20, waits)"
  by (subst wait_loop.simps, simp add: truthy_def, subst wait_loop.simps, simp)

lemma wait_loop_skip:
  "a + n \<le> 20 \<Longrightarrow> \<forall>k. a \<le> k \<and> k < a + n \<longrightarrow> getSubmissionIdFromURL (href k) = None \<Longrightarrow>
   wait_loop href a waits = wait_loop href (a + n) (waits + n)"
proof (induction n arbitrary: a waits)
  case 0
  then show ?case by simp
next
  case (Suc n)
  have "wait_loop href a waits = wait_loop href (a + 1) (waits + 1)"
    using Suc.prems by (intro wait_loop_next) simp_all
  also have "\<dots> = wait_loop href (a + 1 + n) (waits + 1 + n)"
    using Suc.prems by (intro Suc.IH) simp_all
  finally show ?case by simp
qed

lemma wait_loop_bound:
  "attempt \<le> 21 \<Longrightarrow> waits + 1 \<le> attempt \<Longrightarrow> waits \<le> 19 \<Longrightarrow>
   fst (snd (wait_loop href attempt waits)) \<le> 20 \<and> snd (snd (wait_loop href attempt waits)) \<le> 19"
proof (induction href attempt waits rule: wait_loop.induct)
  case (1 href attempt waits)
  show ?case
  proof (cases "attempt \<le> 20")
    case False
    with "1.prems" show ?thesis by (subst (1 2) wait_loop.simps) simp
  next
    case le: True
    show ?thesis
    proof (cases "truthy (getSubmissionIdFromURL (href attempt))")
      case True
      with le "1.prems" show ?thesis by (subst (1 2) wait_loop.simps) simp
    next
      case False
      have "fst (snd (wait_loop href (attempt + 1) (if attempt < 20 then waits + 1 else waits))) \<le> 20
        \<and> snd (snd (wait_loop href (attempt + 1) (if attempt < 20 then waits + 1 else waits))) \<le> 19"
        using le False "1.prems" by (intro "1.IH") auto
      with le False show ?thesis by (subst (1 2) wait_loop.simps) simp
    qed
  qed
qed

lemma waitForSubmissionURL_found:
  assumes "1 \<le> p" "p \<le> 20" "getSubmissionIdFromURL (href p) = Some sid"
    and "\<forall>k. 1 \<le> k \<and> k < p \<longrightarrow> getSubmissionIdFromURL (href k) = None"
  shows "waitForSubmissionURL href = (Some sid, p, p - 1)"
proof -
  have "wait_loop href 1 0 = wait_loop href (1 + (p - 1)) (0 + (p - 1))"
    using assms by (intro wait_loop_skip) auto
  also have "\<dots> = wait_loop href p (p - 1)" using assms(1) by simp
  also have "\<dots> = (Some sid, p, p - 1)" using assms by (intro wait_loop_found) simp_all
  finally show ?thesis by (simp add: waitForSubmissionURL_def)
qed

lemma waitForSubmissionURL_exhausted:
  assumes "\<forall>k. 1 \<le> k \<and> k \<le> 20 \<longrightarrow> getSubmissionIdFromURL (href k) = None"
  shows "waitForSubmissionURL href = (None, 20, 19)"
proof -
  have "wait_loop href 1 0 = wait_loop href (1 + 19) (0 + 19)"
    using assms by (intro wait_loop_skip) auto
  also have "\<dots> = (None, 20, 19)" using assms by (simp add: wait_loop_last)
  finally show ?thesis by (simp add: waitForSubmissionURL_def)
qed

lemma problem_page_no_id: "getSubmissionIdFromURL (problem_page k) = None"
  by (simp add: problem_page_def str_def submissions_at_def)

lemma submission_page_id: "getSubmissionIdFromURL (submission_page k) = Some (str ''1774457019'')"
  by (simp add: submission_page_def str_def submissions_at_def is_digit_def)

section \<open>C8: the location-resolution loop ends within its ceiling\<close>

text \<open>
  C8. \<open>waitForSubmissionURL\<close> is a total function: whatever the address shows at each
  probe, the loop returns after at most 20 probes and at most 19 waits of 500 ms.
  When the identifier first shows at probe \<open>p \<le> 20\<close> it returns that identifier after
  \<open>p\<close> probes; when no probe of the 20 shows one it returns \<open>null\<close>.
\<close>

theorem waitForSubmissionURL_bounded:
  "fst (snd (waitForSubmissionURL href)) \<le> 20
   \<and> snd (snd (waitForSubmissionURL href)) \<le> 19
   \<and> (\<forall>p sid. 1 \<le> p \<and> p \<le> 20 \<and> getSubmissionIdFromURL (href p) = Some sid
         \<and> (\<forall>k. 1 \<le> k \<and> k < p \<longrightarrow> getSubmissionIdFromURL (href k) = None)
        \<longrightarrow> waitForSubmissionURL href = (Some sid, p, p - 1))
   \<and> ((\<forall>k. 1 \<le> k \<and> k \<le> 20 \<longrightarrow> getSubmissionIdFromURL (href k) = None)
        \<longrightarrow> waitForSubmissionURL href = (None, 20, 19))"
proof (intro conjI allI impI)
  show "fst (snd (waitForSubmissionURL href)) \<le> 20"
    using wait_loop_bound [of 1 0 href] by (simp add: waitForSubmissionURL_def)
  show "snd (snd (waitForSubmissionURL href)) \<le> 19"
    using wait_loop_bound [of 1 0 href] by (simp add: waitForSubmissionURL_def)
next
  fix p sid
  assume "1 \<le> p \<and> p \<le> 20 \<and> getSubmissionIdFromURL (href p) = Some sid
         \<and> (\<forall>k. 1 \<le> k \<and> k < p \<longrightarrow> getSubmissionIdFromURL (href k) = None)"
  then show "waitForSubmissionURL href = (Some sid, p, p - 1)"
    by (intro waitForSubmissionURL_found) simp_all
next
  assume "\<forall>k. 1 \<le> k \<and> k \<le> 20 \<longrightarrow> getSubmissionIdFromURL (href k) = None"
  then show "waitForSubmissionURL href = (None, 20, 19)"
    by (rule waitForSubmissionURL_exhausted)
qed

theorem waitForSubmissionURL_bounded_witness:
  "(getSubmissionIdFromURL (problem_page 1) = None
    \<and> getSubmissionIdFromURL (problem_page 20) = None
    \<and> waitForSubmissionURL problem_page = (None, 20, 19))
   \<and> (getSubmissionIdFromURL (submission_page 1) = Some (str ''1774457019'')
    \<and> waitForSubmissionURL submission_page = (Some (str ''1774457019''), 1, 0))"
proof -
  have a: "\<forall>k. 1 \<le> k \<and> k \<le> 20 \<longrightarrow> getSubmissionIdFromURL (problem_page k) = None"
    by (simp add: problem_page_no_id)
  have b: "getSubmissionIdFromURL (submission_page 1) = Some (str ''1774457019'')"
    by (rule submission_page_id)
  have "waitForSubmissionURL problem_page = (None, 20, 19)"
    using waitForSubmissionURL_bounded [of problem_page] a by blast
  moreover have "waitForSubmissionURL submission_page = (Some (str ''1774457019''), 1, 0)"
    using waitForSubmissionURL_bounded [of submission_page] b by force
  ultimately show ?thesis using b by (simp add: problem_page_no_id)
qed

section \<open>The result-readiness loop\<close>







section \<open>C3: what each poll does\<close>



section \<open>C2: a result source that never resolves\<close>





section \<open>Counting difficulties\<close>

lemma add_one_fields:
  "easy c \<le> easy (add_one k c) \<and> medium c \<le> medium (add_one k c) \<and> hard c \<le> hard (add_one k c)
   \<and> easy (add_one k c) + medium (add_one k c) + hard (add_one k c) \<le> easy c + medium c + hard c + 1"
  by (simp add: add_one_def)

lemma count_difficulty_fields:
  "easy c \<le> easy (count_difficulty d c) \<and> medium c \<le> medium (count_difficulty d c)
   \<and> hard c \<le> hard (count_difficulty d c)
   \<and> easy (count_difficulty d c) + medium (count_difficulty d c) + hard (count_difficulty d c)
       \<le> easy c + medium c + hard c + (if d = None then 0 else 1)"
  using add_one_fields [of c "toLowerCase (the d)"]
  by (cases d) (auto simp: count_difficulty_def Let_def)

lemma fold_count_difficulty_fields:
  "easy c \<le> easy (fold count_difficulty ds c) \<and> medium c \<le> medium (fold count_difficulty ds c)
   \<and> hard c \<le> hard (fold count_difficulty ds c)
   \<and> easy (fold count_difficulty ds c) + medium (fold count_difficulty ds c)
        + hard (fold count_difficulty ds c)
       \<le> easy c + medium c + hard c + int (length (filter (\<lambda>d. d \<noteq> None) ds))"
proof (induction ds arbitrary: c)
  case Nil
  show ?case by simp
next
  case (Cons d ds)
  show ?case
    using Cons.IH [of "count_difficulty d c"] count_difficulty_fields [of c d]
    by (cases "d = None") auto
qed

lemma counter_updateStats:
  "counter (updateStats ds now m) = fold count_difficulty ds \<lparr>easy = 0, medium = 0, hard = 0\<rparr>"
  by (simp add: updateStats_def broadcastState_def)

lemma counter_incrementCounter:
  "counter (snd (incrementCounter d now m)) = counter m
   \<or> (\<exists>k. counter (snd (incrementCounter d now m)) = add_one k (counter m))"
  by (cases d) (auto simp: incrementCounter_def Let_def broadcastState_def)

lemma length_filter_lookup:
  "length (filter (\<lambda>d. d \<noteq> None) (map (\<lambda>problem. f (questionId problem)) problems))
   = length (filter (\<lambda>problem. f (questionId problem) \<noteq> None) problems)"
  by (induction problems) auto

lemma tier_keys_distinct:
  "str ''easy'' \<noteq> str ''medium''" "str ''easy'' \<noteq> str ''hard''" "str ''medium'' \<noteq> str ''hard''"
  "str ''easy'' \<noteq> []" "str ''medium'' \<noteq> []" "str ''hard'' \<noteq> []"
  by (simp_all add: str_def)

lemma count_difficulty_easy:
  "easy (count_difficulty d c)
     = easy c + (if d \<noteq> None \<and> toLowerCase (the d) = str ''easy'' then 1 else 0)"
  using tier_keys_distinct
  by (cases d) (auto simp: count_difficulty_def Let_def in_counter_def add_one_def toLowerCase_def)

lemma count_difficulty_medium:
  "medium (count_difficulty d c)
     = medium c + (if d \<noteq> None \<and> toLowerCase (the d) = str ''medium'' then 1 else 0)"
  using tier_keys_distinct
  by (cases d) (auto simp: count_difficulty_def Let_def in_counter_def add_one_def toLowerCase_def)

lemma count_difficulty_hard:
  "hard (count_difficulty d c)
     = hard c + (if d \<noteq> None \<and> toLowerCase (the d) = str ''hard'' then 1 else 0)"
  using tier_keys_distinct
  by (cases d) (auto simp: count_difficulty_def Let_def in_counter_def add_one_def toLowerCase_def)

lemma fold_count_difficulty_easy:
  "easy (fold count_difficulty ds c)
     = easy c + int (length (filter (\<lambda>d. d \<noteq> None \<and> toLowerCase (the d) = str ''easy'') ds))"
  by (induction ds arbitrary: c) (simp_all add: count_difficulty_easy)

lemma fold_count_difficulty_medium:
  "medium (fold count_difficulty ds c)
     = medium c + int (length (filter (\<lambda>d. d \<noteq> None \<and> toLowerCase (the d) = str ''medium'') ds))"
  by (induction ds arbitrary: c) (simp_all add: count_difficulty_medium)

lemma fold_count_difficulty_hard:
  "hard (fold count_difficulty ds c)
     = hard c + int (length (filter (\<lambda>d. d \<noteq> None \<and> toLowerCase (the d) = str ''hard'') ds))"
  by (induction ds arbitrary: c) (simp_all add: count_difficulty_hard)

lemmas counter_eval = incrementCounter_def count_difficulty_def toLowerCase_def in_counter_def
  add_one_def broadcastState_def getStats_def str_def Let_def

text \<open>
  What a recount counts: every problem whose catalog entry, in lower case, names a tier
  adds one to that tier, whether or not another problem has the same identifier.
\<close>

lemma recount_counts_files:
  "easy (counter (recount problems allQuestions now m))
     = int (length (filter (\<lambda>d. d \<noteq> None \<and> toLowerCase (the d) = str ''easy'')
         (map (\<lambda>problem. difficultyMap allQuestions (questionId problem)) problems)))
   \<and> medium (counter (recount problems allQuestions now m))
     = int (length (filter (\<lambda>d. d \<noteq> None \<and> toLowerCase (the d) = str ''medium'')
         (map (\<lambda>problem. difficultyMap allQuestions (questionId problem)) problems)))
   \<and> hard (counter (recount problems allQuestions now m))
     = int (length (filter (\<lambda>d. d \<noteq> None \<and> toLowerCase (the d) = str ''hard'')
         (map (\<lambda>problem. difficultyMap allQuestions (questionId problem)) problems)))"
  unfolding recount_def counter_updateStats
  by (simp only: fold_count_difficulty_easy fold_count_difficulty_medium
      fold_count_difficulty_hard) simp

section \<open>C6: the counts are never negative\<close>

text \<open>
  C6. Whatever list \<open>updateStats\<close> receives and whatever the counts were before, the
  three counts it leaves are non-negative and their sum is at most the number of entries
  that are not \<open>undefined\<close>; for the recount of \<open>initCounter\<close> that is the number of
  problems whose identifier has a catalog entry. \<open>incrementCounter\<close> keeps non-negative
  counts non-negative and raises their sum by at most one.
\<close>

theorem TierCounts_invariant:
  "(0 \<le> easy (counter (updateStats difficulties now m))
    \<and> 0 \<le> medium (counter (updateStats difficulties now m))
    \<and> 0 \<le> hard (counter (updateStats difficulties now m))
    \<and> easy (counter (updateStats difficulties now m))
        + medium (counter (updateStats difficulties now m))
        + hard (counter (updateStats difficulties now m))
       \<le> int (length (filter (\<lambda>d. d \<noteq> None) difficulties)))
   \<and> (easy (counter (recount problems allQuestions now m))
        + medium (counter (recount problems allQuestions now m))
        + hard (counter (recount problems allQuestions now m))
       \<le> int (length (filter (\<lambda>problem. difficultyMap allQuestions (questionId problem) \<noteq> None)
                  problems)))
   \<and> (0 \<le> easy (counter m) \<and> 0 \<le> medium (counter m) \<and> 0 \<le> hard (counter m)
      \<longrightarrow> 0 \<le> easy (counter (snd (incrementCounter difficulty now m)))
        \<and> 0 \<le> medium (counter (snd (incrementCounter difficulty now m)))
        \<and> 0 \<le> hard (counter (snd (incrementCounter difficulty now m)))
        \<and> easy (counter (snd (incrementCounter difficulty now m)))
            + medium (counter (snd (incrementCounter difficulty now m)))
            + hard (counter (snd (incrementCounter difficulty now m)))
           \<le> easy (counter m) + medium (counter m) + hard (counter m) + 1)"
proof (intro conjI impI)
  let ?z = "\<lparr>easy = 0, medium = 0, hard = 0\<rparr>"
  note u = fold_count_difficulty_fields [of ?z difficulties]
  show "0 \<le> easy (counter (updateStats difficulties now m))"
    using u by (simp add: counter_updateStats)
  show "0 \<le> medium (counter (updateStats difficulties now m))"
    using u by (simp add: counter_updateStats)
  show "0 \<le> hard (counter (updateStats difficulties now m))"
    using u by (simp add: counter_updateStats)
  show "easy (counter (updateStats difficulties now m))
        + medium (counter (updateStats difficulties now m))
        + hard (counter (updateStats difficulties now m))
       \<le> int (length (filter (\<lambda>d. d \<noteq> None) difficulties))"
    using u by (simp add: counter_updateStats)
  show "easy (counter (recount problems allQuestions now m))
        + medium (counter (recount problems allQuestions now m))
        + hard (counter (recount problems allQuestions now m))
       \<le> int (length (filter (\<lambda>problem. difficultyMap allQuestions (questionId problem) \<noteq> None)
                  problems))"
    unfolding recount_def counter_updateStats
      length_filter_lookup [of "difficultyMap allQuestions" problems, symmetric]
    using fold_count_difficulty_fields
      [of ?z "map (\<lambda>problem. difficultyMap allQuestions (questionId problem)) problems"]
    by simp
next
  assume a: "0 \<le> easy (counter m) \<and> 0 \<le> medium (counter m) \<and> 0 \<le> hard (counter m)"
  from counter_incrementCounter [of difficulty now m]
  obtain k where k: "counter (snd (incrementCounter difficulty now m)) = counter m
     \<or> counter (snd (incrementCounter difficulty now m)) = add_one k (counter m)"
    by blast
  note f = add_one_fields [of "counter m" k]
  show "0 \<le> easy (counter (snd (incrementCounter difficulty now m)))" using a k f by auto
  show "0 \<le> medium (counter (snd (incrementCounter difficulty now m)))" using a k f by auto
  show "0 \<le> hard (counter (snd (incrementCounter difficulty now m)))" using a k f by auto
  show "easy (counter (snd (incrementCounter difficulty now m)))
            + medium (counter (snd (incrementCounter difficulty now m)))
            + hard (counter (snd (incrementCounter difficulty now m)))
           \<le> easy (counter m) + medium (counter m) + hard (counter m) + 1" using a k f by auto
qed

theorem TierCounts_invariant_witness:
  "(0 \<le> easy (counter (stateManager settled)) \<and> 0 \<le> medium (counter (stateManager settled))
      \<and> 0 \<le> hard (counter (stateManager settled)))
   \<and> counter (snd (incrementCounter (Some (str ''Easy'')) 2000 (stateManager settled)))
       = \<lparr>easy = 4, medium = 2, hard = 1\<rparr>
   \<and> 0 \<le> easy (counter (snd (incrementCounter (Some (str ''Easy'')) 2000 (stateManager settled))))
   \<and> 0 \<le> medium (counter (snd (incrementCounter (Some (str ''Easy'')) 2000 (stateManager settled))))
   \<and> 0 \<le> hard (counter (snd (incrementCounter (Some (str ''Easy'')) 2000 (stateManager settled))))"
proof -
  have h: "0 \<le> easy (counter (stateManager settled)) \<and> 0 \<le> medium (counter (stateManager settled))
      \<and> 0 \<le> hard (counter (stateManager settled))"
    by (simp add: settled_def)
  have v: "counter (snd (incrementCounter (Some (str ''Easy'')) 2000 (stateManager settled)))
       = \<lparr>easy = 4, medium = 2, hard = 1\<rparr>"
    by (simp add: settled_def counter_eval)
  show ?thesis
    using h v TierCounts_invariant [where m = "stateManager settled" and now = 2000
        and difficulty = "Some (str ''Easy'')" and difficulties = "[]" and problems = "[]"
        and allQuestions = "[]"]
    by blast
qed

section \<open>Scanning the repository\<close>

lemma user_url:
  "storage_get e = Inr user_config \<Longrightarrow>
   buildBasicGithubUrl e = Inr (str ''https://api.github.com/repos/user/leetcode/contents/'')"
  by (simp add: buildBasicGithubUrl_def user_config_def parseRepositoryString_def str_def
      trim_def is_space_def is_line_terminator_def interpolate_def REPOSITORY_URL_def)

lemmas scan_eval = getAllLeetCodeProblems_def getAllLeetCodeProblems_try_def scan_folder_def
  scan_folder_try_def problems_of_def dir_entry_def file_entry_def

lemma two_folders_scan:
  "getAllLeetCodeProblems two_folders_env =
     Inr [\<lparr>originalName = str ''0001 two-sum.py'', questionId = str ''1'', language = str ''python''\<rparr>,
          \<lparr>originalName = str ''0001 two-sum.js'', questionId = str ''1'', language = str ''js''\<rparr>]"
proof -
  have u: "buildBasicGithubUrl two_folders_env
      = Inr (str ''https://api.github.com/repos/user/leetcode/contents/'')"
    by (rule user_url) (simp add: two_folders_env_def)
  show ?thesis
    unfolding getAllLeetCodeProblems_def getAllLeetCodeProblems_try_def u
    by (simp add: two_folders_env_def two_folders_fetch_def scan_eval slug_eval)
qed

lemma broken_folder_scan:
  "getAllLeetCodeProblems broken_folder_env =
     Inr [\<lparr>originalName = str ''0001 two-sum.py'', questionId = str ''1'', language = str ''python''\<rparr>]"
proof -
  have u: "buildBasicGithubUrl broken_folder_env
      = Inr (str ''https://api.github.com/repos/user/leetcode/contents/'')"
    by (rule user_url) (simp add: broken_folder_env_def)
  show ?thesis
    unfolding getAllLeetCodeProblems_def getAllLeetCodeProblems_try_def u
    by (simp add: broken_folder_env_def broken_folder_fetch_def scan_eval slug_eval)
qed

lemma scan_folders_concat:
  "scan_folders e url folders allProblems
     = allProblems @ concat (map (scan_folder e url) folders)"
  by (induction folders arbitrary: allProblems) simp_all

lemma scan_folder_ok:
  "fetch e (url @ item_name folder) = ResponseOk (Inr folderData) \<Longrightarrow>
   scan_folder e url folder = problems_of folder folderData"
  by (simp add: scan_folder_def scan_folder_try_def)

lemma scan_folder_member:
  "p \<in> set (scan_folder e url folder) \<Longrightarrow>
   \<exists>folderData. fetch e (url @ item_name folder) = ResponseOk (Inr folderData)
      \<and> p \<in> set (problems_of folder folderData)"
  by (auto simp: scan_folder_def scan_folder_try_def split: fetch_outcome.splits sum.splits)

lemma getAllLeetCodeProblems_total: "\<exists>allProblems. getAllLeetCodeProblems e = Inr allProblems"
  by (simp add: getAllLeetCodeProblems_def split: sum.splits)

lemma getAllLeetCodeProblems_no_url:
  "buildBasicGithubUrl e = Inl err \<Longrightarrow> getAllLeetCodeProblems e = Inr []"
  by (simp add: getAllLeetCodeProblems_def getAllLeetCodeProblems_try_def)

lemma getAllLeetCodeProblems_no_listing:
  "buildBasicGithubUrl e = Inr url \<Longrightarrow> \<forall>data. fetch e url \<noteq> ResponseOk (Inr data) \<Longrightarrow>
   getAllLeetCodeProblems e = Inr []"
  by (simp add: getAllLeetCodeProblems_def getAllLeetCodeProblems_try_def
      split: fetch_outcome.splits sum.splits)

lemma getAllLeetCodeProblems_listing:
  "buildBasicGithubUrl e = Inr url \<Longrightarrow> fetch e url = ResponseOk (Inr data) \<Longrightarrow>
   getAllLeetCodeProblems e
     = Inr (concat (map (scan_folder e url) (filter (\<lambda>item. item_type item = str ''dir'') data)))"
  by (simp add: getAllLeetCodeProblems_def getAllLeetCodeProblems_try_def scan_folders_concat)

lemma getAllLeetCodeProblems_nonempty:
  assumes "getAllLeetCodeProblems e = Inr allProblems" "p \<in> set allProblems"
  shows "\<exists>url data. buildBasicGithubUrl e = Inr url \<and> fetch e url = ResponseOk (Inr data)"
proof (cases "buildBasicGithubUrl e")
  case (Inl err)
  with assms getAllLeetCodeProblems_no_url [of e err] show ?thesis by auto
next
  case (Inr url)
  show ?thesis
  proof (cases "\<exists>data. fetch e url = ResponseOk (Inr data)")
    case True
    with Inr show ?thesis by blast
  next
    case False
    with assms Inr getAllLeetCodeProblems_no_listing [of e url] show ?thesis by auto
  qed
qed

section \<open>C5: the scanner returns a list, whatever the requests do\<close>

text \<open>
  C5. \<open>getAllLeetCodeProblems\<close> always resolves to a list and never rejects. When the
  address cannot be built (the storage read fails or the repository setting is missing),
  or the request for the top-level listing does not yield a listing, the list is empty.
  When the top-level listing arrives, every matching file of every directory whose own
  listing arrives is in the result, whatever the requests for the other directories do.
\<close>

theorem getAllLeetCodeProblems_never_throws:
  "(\<exists>allProblems. getAllLeetCodeProblems e = Inr allProblems)
   \<and> (\<forall>err. buildBasicGithubUrl e = Inl err \<longrightarrow> getAllLeetCodeProblems e = Inr [])
   \<and> (\<forall>url. buildBasicGithubUrl e = Inr url \<and> (\<forall>data. fetch e url \<noteq> ResponseOk (Inr data))
         \<longrightarrow> getAllLeetCodeProblems e = Inr [])
   \<and> (\<forall>url data folder folderData entry.
         buildBasicGithubUrl e = Inr url \<and> fetch e url = ResponseOk (Inr data)
         \<and> folder \<in> set data \<and> item_type folder = str ''dir''
         \<and> fetch e (url @ item_name folder) = ResponseOk (Inr folderData)
         \<and> entry \<in> set folderData \<and> item_type entry = str ''file''
         \<and> filename_pattern (item_name entry)
         \<longrightarrow> (\<exists>allProblems. getAllLeetCodeProblems e = Inr allProblems
               \<and> \<lparr>originalName = item_name entry,
                   questionId = convertGithubToLeetCodeSlug (item_name entry),
                   language = item_name folder\<rparr> \<in> set allProblems))"
proof (intro conjI allI impI)
  show "\<exists>allProblems. getAllLeetCodeProblems e = Inr allProblems"
    by (rule getAllLeetCodeProblems_total)
next
  fix err assume "buildBasicGithubUrl e = Inl err"
  then show "getAllLeetCodeProblems e = Inr []" by (rule getAllLeetCodeProblems_no_url)
next
  fix url assume "buildBasicGithubUrl e = Inr url \<and> (\<forall>data. fetch e url \<noteq> ResponseOk (Inr data))"
  then show "getAllLeetCodeProblems e = Inr []"
    by (intro getAllLeetCodeProblems_no_listing [of e url]) simp_all
next
  fix url data folder folderData entry
  assume a: "buildBasicGithubUrl e = Inr url \<and> fetch e url = ResponseOk (Inr data)
         \<and> folder \<in> set data \<and> item_type folder = str ''dir''
         \<and> fetch e (url @ item_name folder) = ResponseOk (Inr folderData)
         \<and> entry \<in> set folderData \<and> item_type entry = str ''file''
         \<and> filename_pattern (item_name entry)"
  let ?p = "\<lparr>originalName = item_name entry,
              questionId = convertGithubToLeetCodeSlug (item_name entry),
              language = item_name folder\<rparr>"
  have "?p \<in> set (problems_of folder folderData)"
    using a by (auto simp: problems_of_def)
  then have "?p \<in> set (scan_folder e url folder)"
    using a by (simp add: scan_folder_ok)
  moreover have "folder \<in> set (filter (\<lambda>item. item_type item = str ''dir'') data)"
    using a by simp
  ultimately have "?p \<in> set (concat (map (scan_folder e url)
       (filter (\<lambda>item. item_type item = str ''dir'') data)))"
    unfolding set_concat set_map by blast
  then show "\<exists>allProblems. getAllLeetCodeProblems e = Inr allProblems \<and> ?p \<in> set allProblems"
    using a getAllLeetCodeProblems_listing [of e url data] by simp
qed

theorem getAllLeetCodeProblems_never_throws_witness:
  "(buildBasicGithubUrl storage_fails_env = Inl (Error (str ''storage unavailable''))
     \<and> getAllLeetCodeProblems storage_fails_env = Inr [])
   \<and> (buildBasicGithubUrl offline_env
         = Inr (str ''https://api.github.com/repos/user/leetcode/contents/'')
     \<and> fetch offline_env (str ''https://api.github.com/repos/user/leetcode/contents/'')
           = FetchRejects (TypeError (str ''Failed to fetch''))
     \<and> getAllLeetCodeProblems offline_env = Inr [])
   \<and> (fetch broken_folder_env (str ''https://api.github.com/repos/user/leetcode/contents/'' @ item_name (dir_entry ''broken''))
         = FetchRejects (TypeError (str ''Failed to fetch''))
     \<and> dir_entry ''broken'' \<in> set [dir_entry ''broken'', dir_entry ''python'', file_entry ''0003 top-level.py'']
     \<and> (\<exists>allProblems. getAllLeetCodeProblems broken_folder_env = Inr allProblems
           \<and> \<lparr>originalName = str ''0001 two-sum.py'', questionId = str ''1'',
               language = str ''python''\<rparr> \<in> set allProblems))"
proof -
  let ?u = "str ''https://api.github.com/repos/user/leetcode/contents/''"
  let ?data = "[dir_entry ''broken'', dir_entry ''python'', file_entry ''0003 top-level.py'']"
  let ?folderData = "[file_entry ''0001 two-sum.py'', file_entry ''notes.txt'', dir_entry ''0002 nested.dir'']"
  note t = getAllLeetCodeProblems_never_throws
  have a1: "buildBasicGithubUrl storage_fails_env = Inl (Error (str ''storage unavailable''))"
    by (simp add: buildBasicGithubUrl_def storage_fails_env_def)
  have a2: "getAllLeetCodeProblems storage_fails_env = Inr []"
    using t [of storage_fails_env] a1 by blast
  have b1: "buildBasicGithubUrl offline_env = Inr ?u"
    by (rule user_url) (simp add: offline_env_def)
  have b2: "\<forall>data. fetch offline_env ?u \<noteq> ResponseOk (Inr data)"
    by (simp add: offline_env_def)
  have b3: "getAllLeetCodeProblems offline_env = Inr []"
    using t [of offline_env] b1 b2 by blast
  have b4: "fetch offline_env ?u = FetchRejects (TypeError (str ''Failed to fetch''))"
    by (simp add: offline_env_def)
  have c1: "buildBasicGithubUrl broken_folder_env = Inr ?u"
    by (rule user_url) (simp add: broken_folder_env_def)
  have c2: "fetch broken_folder_env ?u = ResponseOk (Inr ?data)"
    by (simp add: broken_folder_env_def broken_folder_fetch_def)
  have c3: "fetch broken_folder_env (?u @ item_name (dir_entry ''broken''))
      = FetchRejects (TypeError (str ''Failed to fetch''))"
    by (simp add: broken_folder_env_def broken_folder_fetch_def dir_entry_def str_def)
  have c4: "fetch broken_folder_env (?u @ item_name (dir_entry ''python'')) = ResponseOk (Inr ?folderData)"
    by (simp add: broken_folder_env_def broken_folder_fetch_def dir_entry_def str_def)
  have c5: "filename_pattern (item_name (file_entry ''0001 two-sum.py''))"
    by (simp add: file_entry_def slug_eval)
  have c6: "convertGithubToLeetCodeSlug (item_name (file_entry ''0001 two-sum.py'')) = str ''1''"
    by (simp add: file_entry_def slug_eval)
  have "\<exists>allProblems. getAllLeetCodeProblems broken_folder_env = Inr allProblems
          \<and> \<lparr>originalName = item_name (file_entry ''0001 two-sum.py''),
              questionId = convertGithubToLeetCodeSlug (item_name (file_entry ''0001 two-sum.py'')),
              language = item_name (dir_entry ''python'')\<rparr> \<in> set allProblems"
    using t [of broken_folder_env, THEN conjunct2, THEN conjunct2, THEN conjunct2, rule_format,
        of ?u ?data "dir_entry ''python''" ?folderData "file_entry ''0001 two-sum.py''"]
      c1 c2 c4 c5
    by (simp add: dir_entry_def file_entry_def)
  then have c7: "\<exists>allProblems. getAllLeetCodeProblems broken_folder_env = Inr allProblems
           \<and> \<lparr>originalName = str ''0001 two-sum.py'', questionId = str ''1'',
               language = str ''python''\<rparr> \<in> set allProblems"
    unfolding c6 by (simp add: dir_entry_def file_entry_def)
  have c8: "dir_entry ''broken'' \<in> set ?data" by simp
  from a1 a2 b1 b3 b4 c3 c8 c7 show ?thesis by blast
qed

section \<open>C9: only matching files are listed\<close>

text \<open>
  C9. Every problem in the list that \<open>getAllLeetCodeProblems\<close> returns comes from an
  entry of type \<open>file\<close> whose name matches \<open>^\d{4}\s+.+\..+$\<close>, listed in a
  directory of the top-level listing. An entry that is not a file, or whose name does not
  match, is therefore not in the list.
\<close>

theorem getAllLeetCodeProblems_only_matching_files:
  assumes "getAllLeetCodeProblems e = Inr allProblems" and "p \<in> set allProblems"
  shows "filename_pattern (originalName p)
       \<and> (\<exists>url data folder folderData entry.
             buildBasicGithubUrl e = Inr url \<and> fetch e url = ResponseOk (Inr data)
             \<and> folder \<in> set data \<and> item_type folder = str ''dir''
             \<and> fetch e (url @ item_name folder) = ResponseOk (Inr folderData)
             \<and> entry \<in> set folderData \<and> item_type entry = str ''file''
             \<and> originalName p = item_name entry \<and> language p = item_name folder
             \<and> questionId p = convertGithubToLeetCodeSlug (item_name entry))"
proof -
  from getAllLeetCodeProblems_nonempty [OF assms] obtain url data where
    u: "buildBasicGithubUrl e = Inr url" and d: "fetch e url = ResponseOk (Inr data)" by blast
  have "allProblems = concat (map (scan_folder e url)
       (filter (\<lambda>item. item_type item = str ''dir'') data))"
    using assms(1) getAllLeetCodeProblems_listing [OF u d] by simp
  with assms(2) obtain folder where
    f: "folder \<in> set data" "item_type folder = str ''dir''" and
    pf: "p \<in> set (scan_folder e url folder)"
    by auto
  from scan_folder_member [OF pf] obtain folderData where
    fd: "fetch e (url @ item_name folder) = ResponseOk (Inr folderData)" and
    pp: "p \<in> set (problems_of folder folderData)" by blast
  from pp obtain entry where
    fl: "entry \<in> set folderData" "item_type entry = str ''file''" "filename_pattern (item_name entry)"
      "p = \<lparr>originalName = item_name entry,
            questionId = convertGithubToLeetCodeSlug (item_name entry),
            language = item_name folder\<rparr>"
    by (auto simp: problems_of_def)
  from fl have "filename_pattern (originalName p)" by simp
  moreover have "\<exists>url data folder folderData entry.
             buildBasicGithubUrl e = Inr url \<and> fetch e url = ResponseOk (Inr data)
             \<and> folder \<in> set data \<and> item_type folder = str ''dir''
             \<and> fetch e (url @ item_name folder) = ResponseOk (Inr folderData)
             \<and> entry \<in> set folderData \<and> item_type entry = str ''file''
             \<and> originalName p = item_name entry \<and> language p = item_name folder
             \<and> questionId p = convertGithubToLeetCodeSlug (item_name entry)"
    using u d f fd fl by (intro exI [of _ url] exI [of _ data] exI [of _ folder]
        exI [of _ folderData] exI [of _ entry]) simp
  ultimately show ?thesis by blast
qed

theorem getAllLeetCodeProblems_only_matching_files_witness:
  "getAllLeetCodeProblems broken_folder_env =
     Inr [\<lparr>originalName = str ''0001 two-sum.py'', questionId = str ''1'', language = str ''python''\<rparr>]
   \<and> filename_pattern (str ''0001 two-sum.py'')
   \<and> \<not> filename_pattern (str ''notes.txt'')"
proof -
  let ?p = "\<lparr>originalName = str ''0001 two-sum.py'', questionId = str ''1'', language = str ''python''\<rparr>"
  have g: "getAllLeetCodeProblems broken_folder_env = Inr [?p]" by (rule broken_folder_scan)
  have m: "?p \<in> set [?p]" by simp
  have "filename_pattern (originalName ?p)"
    using getAllLeetCodeProblems_only_matching_files [OF g m] by (rule conjunct1)
  then have "filename_pattern (str ''0001 two-sum.py'')" by simp
  moreover have "\<not> filename_pattern (str ''notes.txt'')" by (simp add: slug_eval)
  ultimately show ?thesis using g by blast
qed

section \<open>C7: a failed sync\<close>

text \<open>
  C7. When the sync service throws, or resolves to a result that reports no success,
  \<open>startSync\<close> leaves the state manager (and with it the counts) as it was, resolves to
  a result without success, and writes the status record: status \<open>failed\<close>, not in
  progress, the message of the error or of the result, and the time of the run.
\<close>

theorem startSync_failure:
  assumes "syncOutcome = Inl err \<or> (syncOutcome = Inr result \<and> \<not> success result)"
  shows "\<exists>r c'. startSync syncOutcome e now later c = Inr (r, c')
       \<and> \<not> success r
       \<and> stateManager c' = stateManager c
       \<and> storage c' =
           \<lparr>leetcode_tracker_last_sync_status = str ''failed'',
            leetcode_tracker_sync_in_progress = False,
            leetcode_tracker_last_sync_message =
              (case syncOutcome of Inl err \<Rightarrow> message err | Inr result \<Rightarrow> result_message result),
            leetcode_tracker_last_sync_date = Some now\<rparr>"
  using assms by (auto simp: startSync_def Let_def)

theorem startSync_failure_witness:
  "(\<exists>r c'. startSync (Inr failed_result) offline_env 2000 2001 settled = Inr (r, c')
       \<and> \<not> success r
       \<and> counter (stateManager c') = \<lparr>easy = 3, medium = 2, hard = 1\<rparr>
       \<and> storage c' =
           \<lparr>leetcode_tracker_last_sync_status = str ''failed'',
            leetcode_tracker_sync_in_progress = False,
            leetcode_tracker_last_sync_message = str ''GitHub API rate limit exceeded'',
            leetcode_tracker_last_sync_date = Some 2000\<rparr>)
   \<and> (\<exists>r c'. startSync (Inl (Error (str ''Network error''))) offline_env 2000 2001 settled = Inr (r, c')
       \<and> \<not> success r
       \<and> counter (stateManager c') = \<lparr>easy = 3, medium = 2, hard = 1\<rparr>
       \<and> storage c' =
           \<lparr>leetcode_tracker_last_sync_status = str ''failed'',
            leetcode_tracker_sync_in_progress = False,
            leetcode_tracker_last_sync_message = str ''Network error'',
            leetcode_tracker_last_sync_date = Some 2000\<rparr>)"
proof -
  have f: "\<not> success failed_result" by (simp add: failed_result_def)
  have s: "counter (stateManager settled) = \<lparr>easy = 3, medium = 2, hard = 1\<rparr>"
    by (simp add: settled_def)
  have one: "Inr failed_result = Inl (Error (str ''Network error''))
      \<or> ((Inr failed_result :: error + sync_result) = Inr failed_result \<and> \<not> success failed_result)"
    using f by simp
  have two: "(Inl (Error (str ''Network error'')) :: error + sync_result) = Inl (Error (str ''Network error''))
      \<or> (Inl (Error (str ''Network error'')) = Inr failed_result \<and> \<not> success failed_result)"
    by simp
  from startSync_failure [OF one, of offline_env 2000 2001 settled]
  obtain r1 c1 where
    a: "startSync (Inr failed_result) offline_env 2000 2001 settled = Inr (r1, c1)" "\<not> success r1"
      "stateManager c1 = stateManager settled"
      "storage c1 =
           \<lparr>leetcode_tracker_last_sync_status = str ''failed'',
            leetcode_tracker_sync_in_progress = False,
            leetcode_tracker_last_sync_message = result_message failed_result,
            leetcode_tracker_last_sync_date = Some 2000\<rparr>"
    by auto
  from startSync_failure [OF two, of offline_env 2000 2001 settled]
  obtain r2 c2 where
    b: "startSync (Inl (Error (str ''Network error''))) offline_env 2000 2001 settled = Inr (r2, c2)"
      "\<not> success r2" "stateManager c2 = stateManager settled"
      "storage c2 =
           \<lparr>leetcode_tracker_last_sync_status = str ''failed'',
            leetcode_tracker_sync_in_progress = False,
            leetcode_tracker_last_sync_message = message (Error (str ''Network error'')),
            leetcode_tracker_last_sync_date = Some 2000\<rparr>"
    by auto
  have m: "result_message failed_result = str ''GitHub API rate limit exceeded''"
    by (simp add: failed_result_def)
  show ?thesis
  proof (intro conjI)
    show "\<exists>r c'. startSync (Inr failed_result) offline_env 2000 2001 settled = Inr (r, c')
       \<and> \<not> success r
       \<and> counter (stateManager c') = \<lparr>easy = 3, medium = 2, hard = 1\<rparr>
       \<and> storage c' =
           \<lparr>leetcode_tracker_last_sync_status = str ''failed'',
            leetcode_tracker_sync_in_progress = False,
            leetcode_tracker_last_sync_message = str ''GitHub API rate limit exceeded'',
            leetcode_tracker_last_sync_date = Some 2000\<rparr>"
      using a s m by (intro exI [of _ r1] exI [of _ c1]) simp
    show "\<exists>r c'. startSync (Inl (Error (str ''Network error''))) offline_env 2000 2001 settled = Inr (r, c')
       \<and> \<not> success r
       \<and> counter (stateManager c') = \<lparr>easy = 3, medium = 2, hard = 1\<rparr>
       \<and> storage c' =
           \<lparr>leetcode_tracker_last_sync_status = str ''failed'',
            leetcode_tracker_sync_in_progress = False,
            leetcode_tracker_last_sync_message = str ''Network error'',
            leetcode_tracker_last_sync_date = Some 2000\<rparr>"
      using b s by (intro exI [of _ r2] exI [of _ c2]) simp
  qed
qed

section \<open>C10: initCounter always ends in a completed state\<close>

text \<open>
  C10. \<open>initCounter\<close> never rejects, whatever the storage read, the requests and the
  catalog do. On every path, and so on every path that does not complete a recount, it
  leaves \<open>loading = false\<close> and \<open>isCountingComplete = true\<close>, and its last act is to
  send a \<open>statsUpdate\<close> message that carries exactly that state: the three counts and
  the date it leaves, \<open>loading\<close> false and \<open>isCountingComplete\<close> true. The same holds
  for every outcome that the call of \<open>getAllLeetCodeProblems\<close> could have.
\<close>

theorem initCounter_never_rejects:
  "(\<exists>m'. initCounter e now m = Inr m' \<and> \<not> loading m' \<and> isCountingComplete m'
        \<and> sent m' = sent m @ [getStats m']
        \<and> sent m' = sent m @
             [\<lparr>stats_easy = easy (counter m'), stats_medium = medium (counter m'),
               stats_hard = hard (counter m'), stats_isCountingComplete = True,
               stats_lastUpdate = lastUpdate m', stats_loading = False\<rparr>]
        \<and> \<not> stats_loading (last (sent m')) \<and> stats_isCountingComplete (last (sent m')))
   \<and> (\<forall>call. \<exists>m'. initCounter_with call e now m = Inr m' \<and> \<not> loading m' \<and> isCountingComplete m'
        \<and> sent m' = sent m @ [getStats m']
        \<and> sent m' = sent m @
             [\<lparr>stats_easy = easy (counter m'), stats_medium = medium (counter m'),
               stats_hard = hard (counter m'), stats_isCountingComplete = True,
               stats_lastUpdate = lastUpdate m', stats_loading = False\<rparr>]
        \<and> \<not> stats_loading (last (sent m')) \<and> stats_isCountingComplete (last (sent m')))"
proof -
  have w: "\<exists>m'. initCounter_with call e now m = Inr m' \<and> \<not> loading m' \<and> isCountingComplete m'
        \<and> sent m' = sent m @ [getStats m']
        \<and> sent m' = sent m @
             [\<lparr>stats_easy = easy (counter m'), stats_medium = medium (counter m'),
               stats_hard = hard (counter m'), stats_isCountingComplete = True,
               stats_lastUpdate = lastUpdate m', stats_loading = False\<rparr>]
        \<and> \<not> stats_loading (last (sent m')) \<and> stats_isCountingComplete (last (sent m'))" for call
    by (simp add: initCounter_with_def initCounter_try_def recount_def updateStats_def
        broadcastState_def reset_def getStats_def Let_def split: sum.splits)
  show ?thesis using w by (simp add: initCounter_def)
qed

theorem initCounter_never_rejects_witness:
  "(\<exists>m'. initCounter two_folders_env 2000 constructor = Inr m' \<and> \<not> loading m'
        \<and> isCountingComplete m'
        \<and> sent m' =
             [\<lparr>stats_easy = easy (counter m'), stats_medium = medium (counter m'),
               stats_hard = hard (counter m'), stats_isCountingComplete = True,
               stats_lastUpdate = lastUpdate m', stats_loading = False\<rparr>]
        \<and> \<not> stats_loading (last (sent m')) \<and> stats_isCountingComplete (last (sent m')))
   \<and> (\<exists>m'. initCounter storage_fails_env 2000 constructor = Inr m' \<and> \<not> loading m'
        \<and> isCountingComplete m'
        \<and> sent m' =
             [\<lparr>stats_easy = easy (counter m'), stats_medium = medium (counter m'),
               stats_hard = hard (counter m'), stats_isCountingComplete = True,
               stats_lastUpdate = lastUpdate m', stats_loading = False\<rparr>]
        \<and> \<not> stats_loading (last (sent m')) \<and> stats_isCountingComplete (last (sent m')))"
proof -
  have s: "sent constructor = []" by (simp add: constructor_def)
  from initCounter_never_rejects [of two_folders_env 2000 constructor]
  have a: "\<exists>m'. initCounter two_folders_env 2000 constructor = Inr m' \<and> \<not> loading m'
        \<and> isCountingComplete m'
        \<and> sent m' = sent constructor @
             [\<lparr>stats_easy = easy (counter m'), stats_medium = medium (counter m'),
               stats_hard = hard (counter m'), stats_isCountingComplete = True,
               stats_lastUpdate = lastUpdate m', stats_loading = False\<rparr>]
        \<and> \<not> stats_loading (last (sent m')) \<and> stats_isCountingComplete (last (sent m'))"
    by blast
  from initCounter_never_rejects [of storage_fails_env 2000 constructor]
  have b: "\<exists>m'. initCounter storage_fails_env 2000 constructor = Inr m' \<and> \<not> loading m'
        \<and> isCountingComplete m'
        \<and> sent m' = sent constructor @
             [\<lparr>stats_easy = easy (counter m'), stats_medium = medium (counter m'),
               stats_hard = hard (counter m'), stats_isCountingComplete = True,
               stats_lastUpdate = lastUpdate m', stats_loading = False\<rparr>]
        \<and> \<not> stats_loading (last (sent m')) \<and> stats_isCountingComplete (last (sent m'))"
    by blast
  from a b show ?thesis unfolding s by simp
qed

section \<open>C4: counting files in a repository\<close>

lemma user_config_truthy:
  "truthy (leetcode_tracker_token user_config) \<and> truthy (leetcode_tracker_username user_config)
   \<and> truthy (leetcode_tracker_repo user_config)"
  by (simp add: user_config_def truthy_def str_def)

lemma recount_two_folders:
  "counter (recount
      [\<lparr>originalName = str ''0001 two-sum.py'', questionId = str ''1'', language = str ''python''\<rparr>,
       \<lparr>originalName = str ''0001 two-sum.js'', questionId = str ''1'', language = str ''js''\<rparr>]
      [(str ''1'', str ''Easy'')] now m)
   = \<lparr>easy = 2, medium = 0, hard = 0\<rparr>"
  by (simp add: recount_def counter_updateStats difficultyMap_def counter_eval)

lemma initCounter_with_scanner_two_folders:
  "\<exists>m'. initCounter_with (getAllLeetCodeProblems two_folders_env) two_folders_env now m = Inr m'
     \<and> counter m' = \<lparr>easy = 2, medium = 0, hard = 0\<rparr>"
proof -
  have "fetchAllQuestionsDifficulty two_folders_env = Inr [(str ''1'', str ''Easy'')]"
    "storage_get two_folders_env = Inr user_config"
    by (simp_all add: two_folders_env_def)
  then show ?thesis
    using user_config_truthy recount_two_folders
    by (simp add: initCounter_with_def initCounter_try_def two_folders_scan Let_def)
qed

text \<open>
  C4 asks for an easy count of 2 when the same problem lies in two language folders and
  the catalog rates it Easy. The recount itself would count both files
  (\<open>recount_counts_files\<close>, \<open>recount_two_folders\<close>), and so would \<open>initCounter\<close> if
  it called the scanner of \<open>GitHubService\<close> (\<open>initCounter_with_scanner_two_folders\<close>).
  As written, \<open>initCounter\<close> calls \<open>this.getAllLeetCodeProblems()\<close> on the controller,
  which throws before any request is made; the \<open>catch\<close> then broadcasts the counts that
  \<open>reset\<close> has just set to zero. On the repository with two folders every count is 0.
\<close>

theorem initCounter_two_folders_counts_nothing:
  "\<exists>m'. initCounter two_folders_env now m = Inr m'
     \<and> easy (counter m') = 0 \<and> medium (counter m') = 0 \<and> hard (counter m') = 0"
  using user_config_truthy
  by (simp add: initCounter_def initCounter_with_def initCounter_try_def
      this_getAllLeetCodeProblems_def two_folders_env_def reset_def broadcastState_def Let_def)


theorem initCounter_two_folders_counts_nothing_witness:
  "\<exists>m'. initCounter two_folders_env 2000 constructor = Inr m'
     \<and> easy (counter m') = 0 \<and> medium (counter m') = 0 \<and> hard (counter m') = 0
     \<and> \<not> loading m' \<and> isCountingComplete m'"
proof -
  from initCounter_two_folders_counts_nothing [of 2000 constructor] obtain m' where
    m: "initCounter two_folders_env 2000 constructor = Inr m'"
      "easy (counter m') = 0" "medium (counter m') = 0" "hard (counter m') = 0"
    by blast
  from m(1) have "\<not> loading m' \<and> isCountingComplete m'"
    using user_config_truthy
    by (auto simp: initCounter_def initCounter_with_def initCounter_try_def
        this_getAllLeetCodeProblems_def two_folders_env_def reset_def broadcastState_def Let_def)
  with m show ?thesis by blast
qed

end
